theory Spec2Isabelle
  imports Complex_Main
begin

section \<open>Tensor elements\<close>

text \<open>
  The tensors of \<^verbatim>\<open>score.py\<close> hold IEEE single-precision numbers (torch's default
  \<^verbatim>\<open>float32\<close>). A finite value is the real number it stands for, and the three values
  that are not finite are kept apart, because division in torch never raises:
  \<^verbatim>\<open>0/0\<close> is NaN and \<^verbatim>\<open>x/0\<close> is an infinity.

  The range of the format is modelled: a result whose magnitude reaches \<open>fovf\<close>, the
  midpoint above the largest finite number, is an infinity; a product or a quotient below
  the smallest normal number \<open>2 ^ -126\<close> is rounded to the grid of the subnormal
  numbers, the multiples of \<open>2 ^ -149\<close>, so that it is 0 below \<open>2 ^ -150\<close>. A sum is
  exact when it is subnormal, as in IEEE arithmetic. Within the normal range the rounding
  to 24 bits is not modelled: there "equal within tolerance" reads as equality. The zero
  of the model is the positive zero.
\<close>

datatype fl = Fin real | PInf | NInf | NaN

definition sgn_inf :: "real \<Rightarrow> fl" where
  "sgn_inf s = (if 0 < s then PInf else if s < 0 then NInf else NaN)"

definition fovf :: real where
  "fovf = 2 ^ 128 - 2 ^ 103"

definition fmin_normal :: real where
  "fmin_normal = 1 / 2 ^ 126"

text \<open>Rounding to the nearest integer, a tie to the even one.\<close>

definition rne :: "real \<Rightarrow> int" where
  "rne x =
     (if x - of_int \<lfloor>x\<rfloor> < 1 / 2 then \<lfloor>x\<rfloor>
      else if 1 / 2 < x - of_int \<lfloor>x\<rfloor> then \<lfloor>x\<rfloor> + 1
      else if even \<lfloor>x\<rfloor> then \<lfloor>x\<rfloor> else \<lfloor>x\<rfloor> + 1)"

definition subn :: "real \<Rightarrow> real" where
  "subn z = of_int (rne (z * 2 ^ 149)) / 2 ^ 149"

text \<open>The result of an addition, and the result of a multiplication or a division.\<close>

definition ovf :: "real \<Rightarrow> fl" where
  "ovf z = (if fovf \<le> \<bar>z\<bar> then sgn_inf z else Fin z)"

definition rnd :: "real \<Rightarrow> fl" where
  "rnd z =
     (if fovf \<le> \<bar>z\<bar> then sgn_inf z
      else if \<bar>z\<bar> < fmin_normal then Fin (subn z)
      else Fin z)"

text \<open>A real number that a multiplication or a division returns as it is.\<close>

definition in_range :: "real \<Rightarrow> bool" where
  "in_range z = (z = 0 \<or> (fmin_normal \<le> \<bar>z\<bar> \<and> \<bar>z\<bar> < fovf))"

fun fl_sign :: "fl \<Rightarrow> real" where
  "fl_sign (Fin x) = sgn x"
| "fl_sign PInf = 1"
| "fl_sign NInf = - 1"
| "fl_sign NaN = 0"

fun fl_neg :: "fl \<Rightarrow> fl" where
  "fl_neg (Fin x) = Fin (- x)"
| "fl_neg PInf = NInf"
| "fl_neg NInf = PInf"
| "fl_neg NaN = NaN"

fun fl_add :: "fl \<Rightarrow> fl \<Rightarrow> fl" where
  "fl_add (Fin x) (Fin y) = ovf (x + y)"
| "fl_add NaN b = NaN"
| "fl_add a NaN = NaN"
| "fl_add PInf NInf = NaN"
| "fl_add NInf PInf = NaN"
| "fl_add PInf b = PInf"
| "fl_add a PInf = PInf"
| "fl_add NInf b = NInf"
| "fl_add a NInf = NInf"

definition fl_sub :: "fl \<Rightarrow> fl \<Rightarrow> fl" where
  "fl_sub a b = fl_add a (fl_neg b)"

fun fl_mul :: "fl \<Rightarrow> fl \<Rightarrow> fl" where
  "fl_mul (Fin x) (Fin y) = rnd (x * y)"
| "fl_mul NaN b = NaN"
| "fl_mul a NaN = NaN"
| "fl_mul a b = sgn_inf (fl_sign a * fl_sign b)"

fun fl_div :: "fl \<Rightarrow> fl \<Rightarrow> fl" where
  "fl_div (Fin x) (Fin y) = (if y = 0 then sgn_inf x else rnd (x / y))"
| "fl_div NaN b = NaN"
| "fl_div a NaN = NaN"
| "fl_div (Fin x) b = Fin 0"
| "fl_div a (Fin y) = (if 0 \<le> y then a else fl_neg a)"
| "fl_div a b = NaN"

text \<open>\<^verbatim>\<open>torch.max\<close> propagates NaN.\<close>

fun fl_max :: "fl \<Rightarrow> fl \<Rightarrow> fl" where
  "fl_max (Fin x) (Fin y) = Fin (max x y)"
| "fl_max NaN b = NaN"
| "fl_max a NaN = NaN"
| "fl_max PInf b = PInf"
| "fl_max a PInf = PInf"
| "fl_max NInf b = b"
| "fl_max a NInf = a"

fun fl_sqrt :: "fl \<Rightarrow> fl" where
  "fl_sqrt (Fin x) = (if x < 0 then NaN else Fin (sqrt x))"
| "fl_sqrt PInf = PInf"
| "fl_sqrt NInf = NaN"
| "fl_sqrt NaN = NaN"

text \<open>A sum over a dimension, accumulated from the last entry to the first.\<close>

primrec fl_sum :: "fl list \<Rightarrow> fl" where
  "fl_sum [] = Fin 0"
| "fl_sum (x # xs) = fl_add x (fl_sum xs)"

fun is_Fin :: "fl \<Rightarrow> bool" where
  "is_Fin (Fin x) = True"
| "is_Fin a = False"

fun fin_val :: "fl \<Rightarrow> real" where
  "fin_val (Fin x) = x"
| "fin_val a = 0"

section \<open>Errors and tensors\<close>

datatype error =
  ValueError | NameError | AttributeError | ZeroDivisionError | OSError
  | IndexError | RuntimeError

type_synonym vec = "fl list"
type_synonym mat = "fl list list"
type_synonym tensor3 = "fl list list list"

text \<open>
  A tensor is the nested list of its entries, outermost dimension first. The embedding
  tensors are mutated in place by the code, so they live in a store and are passed by
  address.
\<close>

type_synonym heap = "nat \<Rightarrow> tensor3 option"

primrec sequence :: "(error + 'a) list \<Rightarrow> error + 'a list" where
  "sequence [] = Inr []"
| "sequence (x # xs) =
     (case x of
        Inl e \<Rightarrow> Inl e
      | Inr v \<Rightarrow> (case sequence xs of Inl e \<Rightarrow> Inl e | Inr vs \<Rightarrow> Inr (v # vs)))"

text \<open>
  Elementwise operations of torch broadcast: two dimensions fit when they are equal or
  one of them is 1; otherwise torch raises RuntimeError.
\<close>

definition bc2 :: "('a \<Rightarrow> 'b \<Rightarrow> 'c) \<Rightarrow> 'a list \<Rightarrow> 'b list \<Rightarrow> error + 'c list" where
  "bc2 f xs ys =
     (if length xs = length ys then Inr (map2 f xs ys)
      else if length xs = 1 then Inr (map (f (hd xs)) ys)
      else if length ys = 1 then Inr (map (\<lambda>x. f x (hd ys)) xs)
      else Inl RuntimeError)"

definition bc2_mat :: "(fl \<Rightarrow> fl \<Rightarrow> fl) \<Rightarrow> mat \<Rightarrow> mat \<Rightarrow> error + mat" where
  "bc2_mat f A B =
     (case bc2 (bc2 f) A B of Inl e \<Rightarrow> Inl e | Inr rows \<Rightarrow> sequence rows)"

section \<open>Pairwise similarity\<close>

text \<open>\<^verbatim>\<open>torch.norm(embeds, dim=-1)\<close>: the 2-norm of one token vector.\<close>

definition norm_last :: "vec \<Rightarrow> fl" where
  "norm_last v = fl_sqrt (fl_sum (map (\<lambda>x. fl_mul x x) v))"

definition normalize_row :: "vec \<Rightarrow> vec" where
  "normalize_row v = map (\<lambda>x. fl_div x (norm_last v)) v"

text \<open>
  \<^verbatim>\<open>embeds.div_(torch.norm(embeds, dim=-1).unsqueeze(-1))\<close>: the norms are computed
  first, then every entry of the tensor at the address is overwritten by its quotient.
\<close>

definition div_norm :: "tensor3 \<Rightarrow> tensor3" where
  "div_norm t = map (map normalize_row) t"

definition normalize :: "heap \<Rightarrow> nat \<Rightarrow> heap" where
  "normalize h a = (case h a of None \<Rightarrow> h | Some t \<Rightarrow> h(a \<mapsto> div_norm t))"

definition dot :: "vec \<Rightarrow> vec \<Rightarrow> fl" where
  "dot u v = fl_sum (map2 fl_mul u v)"

definition same_dim :: "tensor3 \<Rightarrow> tensor3 \<Rightarrow> bool" where
  "same_dim R C =
     list_all (\<lambda>u. list_all (\<lambda>v. length u = length v) (concat C)) (concat R)"

text \<open>
  \<^verbatim>\<open>torch.bmm(refer_embeds, candi_embeds.permute(0, 2, 1))\<close>: entry \<open>[b,i,j]\<close> is the
  dot product of reference vector \<open>i\<close> and candidate vector \<open>j\<close> of sentence \<open>b\<close>. The
  batch sizes and the embedding dimensions must agree, else torch raises RuntimeError.
\<close>

definition bmm_permute :: "tensor3 \<Rightarrow> tensor3 \<Rightarrow> error + tensor3" where
  "bmm_permute R C =
     (if length R = length C \<and> same_dim R C
      then Inr (map2 (\<lambda>Rb Cb. map (\<lambda>u. map (\<lambda>v. dot u v) Cb) Rb) R C)
      else Inl RuntimeError)"

definition compute_pairwise_cosine :: "heap \<Rightarrow> nat \<Rightarrow> nat \<Rightarrow> (error + tensor3) \<times> heap" where
  "compute_pairwise_cosine h refer_embeds candi_embeds =
     (let h1 = normalize h refer_embeds;
          h2 = normalize h1 candi_embeds
      in case h2 refer_embeds of
           None \<Rightarrow> (Inl AttributeError, h2)
         | Some R \<Rightarrow>
             (case h2 candi_embeds of
                None \<Rightarrow> (Inl AttributeError, h2)
              | Some C \<Rightarrow> (bmm_permute R C, h2)))"

section \<open>Greedy alignment and aggregation\<close>

text \<open>A reduction by \<^verbatim>\<open>max\<close> over a dimension of size 0 raises.\<close>

fun max_list :: "fl list \<Rightarrow> error + fl" where
  "max_list [] = Inl IndexError"
| "max_list (x # xs) = Inr (foldl fl_max x xs)"

definition max_dim2 :: "tensor3 \<Rightarrow> error + mat" where
  "max_dim2 pc = sequence (map (\<lambda>M. sequence (map max_list M)) pc)"

fun max_rows :: "mat \<Rightarrow> error + vec" where
  "max_rows [] = Inl IndexError"
| "max_rows (r # rs) = Inr (foldl (map2 fl_max) r rs)"

definition max_dim1 :: "tensor3 \<Rightarrow> error + mat" where
  "max_dim1 pc = sequence (map max_rows pc)"

definition idf_lookup :: "fl list \<Rightarrow> int \<Rightarrow> error + fl" where
  "idf_lookup w i =
     (if 0 \<le> i \<and> i < int (length w) then Inr (w ! nat i) else Inl IndexError)"

definition apply_idf :: "int list list \<Rightarrow> fl list \<Rightarrow> error + mat" where
  "apply_idf ids idf_embed = sequence (map (\<lambda>row. sequence (map (idf_lookup idf_embed) row)) ids)"

definition rescaling :: "fl \<Rightarrow> real \<Rightarrow> fl" where
  "rescaling scores base = fl_div (fl_sub scores (Fin base)) (Fin (1 - base))"

definition rescaling_mat :: "mat \<Rightarrow> real \<Rightarrow> mat" where
  "rescaling_mat scores base = map (map (\<lambda>s. rescaling s base)) scores"

text \<open>\<^verbatim>\<open>(X * w).sum(axis=1) / w.sum(axis=1)\<close>\<close>

definition weighted_mean :: "mat \<Rightarrow> mat \<Rightarrow> error + vec" where
  "weighted_mean X w =
     (case bc2_mat fl_mul X w of
        Inl e \<Rightarrow> Inl e
      | Inr Xw \<Rightarrow> bc2 fl_div (map fl_sum Xw) (map fl_sum w))"

text \<open>\<^verbatim>\<open>2 * (R * P) / (R + P)\<close>\<close>

definition f_measure :: "vec \<Rightarrow> vec \<Rightarrow> error + vec" where
  "f_measure R P =
     (case bc2 fl_mul R P of
        Inl e \<Rightarrow> Inl e
      | Inr RP \<Rightarrow>
          (case bc2 fl_add R P of
             Inl e \<Rightarrow> Inl e
           | Inr S \<Rightarrow> bc2 fl_div (map (fl_mul (Fin 2)) RP) S))"

definition idf_weights ::
  "mat \<Rightarrow> mat \<Rightarrow> int list list option \<Rightarrow> int list list option \<Rightarrow> fl list option
    \<Rightarrow> error + (mat \<times> mat)" where
  "idf_weights refer_weight_mask candi_weight_mask refer_ids candi_ids idf =
     (case idf of
        None \<Rightarrow> Inr (refer_weight_mask, candi_weight_mask)
      | Some w \<Rightarrow>
          (case refer_ids of
             None \<Rightarrow> Inr (refer_weight_mask, candi_weight_mask)
           | Some rids \<Rightarrow>
               (case candi_ids of
                  None \<Rightarrow> Inr (refer_weight_mask, candi_weight_mask)
                | Some cids \<Rightarrow>
                    (case apply_idf rids w of
                       Inl e \<Rightarrow> Inl e
                     | Inr rw \<Rightarrow>
                         (case apply_idf cids w of
                            Inl e \<Rightarrow> Inl e
                          | Inr cw \<Rightarrow> Inr (rw, cw))))))"

text \<open>
  The part of \<^verbatim>\<open>compute_RPF\<close> after the pairwise similarity: lines 154 to 167.
\<close>

definition rpf_of_cosine ::
  "tensor3 \<Rightarrow> mat \<Rightarrow> mat \<Rightarrow> int list list option \<Rightarrow> int list list option
    \<Rightarrow> fl list option \<Rightarrow> real \<Rightarrow> error + (vec \<times> vec \<times> vec)" where
  "rpf_of_cosine pairwise_cosine refer_weight_mask candi_weight_mask refer_ids candi_ids
       idf rescale_base =
     (case max_dim2 pairwise_cosine of
        Inl e \<Rightarrow> Inl e
      | Inr R_max \<Rightarrow>
     (case max_dim1 pairwise_cosine of
        Inl e \<Rightarrow> Inl e
      | Inr P_max \<Rightarrow>
     (case idf_weights refer_weight_mask candi_weight_mask refer_ids candi_ids idf of
        Inl e \<Rightarrow> Inl e
      | Inr (rw, cw) \<Rightarrow>
     (case weighted_mean (rescaling_mat R_max rescale_base) rw of
        Inl e \<Rightarrow> Inl e
      | Inr R \<Rightarrow>
     (case weighted_mean (rescaling_mat P_max rescale_base) cw of
        Inl e \<Rightarrow> Inl e
      | Inr P \<Rightarrow>
     (case f_measure R P of
        Inl e \<Rightarrow> Inl e
      | Inr F \<Rightarrow> Inr (R, P, F)))))))"

definition compute_RPF ::
  "heap \<Rightarrow> nat \<Rightarrow> nat \<Rightarrow> mat \<Rightarrow> mat \<Rightarrow> int list list option \<Rightarrow> int list list option
    \<Rightarrow> fl list option \<Rightarrow> real \<Rightarrow> (error + (vec \<times> vec \<times> vec)) \<times> heap" where
  "compute_RPF h refer_embeds candi_embeds refer_weight_mask candi_weight_mask
       refer_ids candi_ids idf rescale_base =
     (case compute_pairwise_cosine h refer_embeds candi_embeds of
        (Inl e, h') \<Rightarrow> (Inl e, h')
      | (Inr pairwise_cosine, h') \<Rightarrow>
          (rpf_of_cosine pairwise_cosine refer_weight_mask candi_weight_mask
             refer_ids candi_ids idf rescale_base, h'))"

section \<open>Tokenization and masking\<close>

text \<open>
  The tokenizer is a collaborator from the transformers library: \<open>encode\<close> gives the
  token ids of one sentence, begin and end markers included, and \<open>vocab_len\<close> is
  \<^verbatim>\<open>len(tokenizer)\<close>.
\<close>

record tokenizer =
  encode :: "string \<Rightarrow> int list"
  cls_token_id :: int
  sep_token_id :: int
  pad_token_id :: int
  vocab_len :: nat

text \<open>
  Modelled from the spec: \<^verbatim>\<open>batch_encode_plus(input_sents, padding=True)\<close> belongs to
  the transformers library. Per the tokenizer interface of the specification it returns
  the token sequences right-padded to the maximum length of the batch, and the attention
  mask that is 1 on real tokens and 0 on padding.
\<close>

definition batch_encode_plus :: "tokenizer \<Rightarrow> string list \<Rightarrow> int list list \<times> int list list" where
  "batch_encode_plus tok input_sents =
     (let toks = map (encode tok) input_sents;
          K = foldr max (map length toks) 0
      in (map (\<lambda>t. t @ replicate (K - length t) (pad_token_id tok)) toks,
          map (\<lambda>t. replicate (length t) 1 @ replicate (K - length t) 0) toks))"

text \<open>\<^verbatim>\<open>torch.where(ids == special, zero_mask, mask)\<close>\<close>

definition where_eq :: "int \<Rightarrow> int list list \<Rightarrow> int list list \<Rightarrow> int list list" where
  "where_eq special ids msk =
     map2 (\<lambda>irow mrow. map2 (\<lambda>i m. if i = special then 0 else m) irow mrow) ids msk"

definition sents_to_tensor ::
  "tokenizer \<Rightarrow> string list \<Rightarrow> int list list \<times> int list list \<times> int list list" where
  "sents_to_tensor bert_tokenizer input_sents =
     (let (padded_input_ids, attention_mask) = batch_encode_plus bert_tokenizer input_sents;
          token_mask = where_eq (cls_token_id bert_tokenizer) padded_input_ids attention_mask;
          token_mask = where_eq (sep_token_id bert_tokenizer) padded_input_ids token_mask
      in (padded_input_ids, attention_mask, token_mask))"

section \<open>Embedding provider\<close>

text \<open>
  The encoder is a black box: from the token ids and the attention mask of a batch it
  gives the tuple of hidden states, one \<open>(B, K, D)\<close> tensor per layer.
\<close>

type_synonym bert_model = "int list list \<Rightarrow> int list list \<Rightarrow> tensor3 list"

datatype layer_index = All | Ix int

datatype hidden = Layers "tensor3 list" | Layer tensor3

text \<open>Indexing a Python tuple: a negative index counts from the end.\<close>

definition py_index :: "'a list \<Rightarrow> int \<Rightarrow> error + 'a" where
  "py_index xs i =
     (if 0 \<le> i \<and> i < int (length xs) then Inr (xs ! nat i)
      else if i < 0 \<and> - int (length xs) \<le> i then Inr (xs ! nat (int (length xs) + i))
      else Inl IndexError)"

definition bert_forwarding ::
  "bert_model \<Rightarrow> int list list \<Rightarrow> int list list \<Rightarrow> layer_index \<Rightarrow> error + hidden" where
  "bert_forwarding model input_ids attention_mask output_layer_index =
     (let hidden_states = model input_ids attention_mask
      in case output_layer_index of
           All \<Rightarrow> Inr (Layers hidden_states)
         | Ix i \<Rightarrow>
             (case py_index hidden_states i of
                Inl e \<Rightarrow> Inl e
              | Inr t \<Rightarrow> Inr (Layer t)))"

section \<open>Scoring one batch\<close>

definition of_mask :: "int list list \<Rightarrow> mat" where
  "of_mask m = map (map (\<lambda>x. Fin (of_int x))) m"

text \<open>
  \<^verbatim>\<open>bert_score\<close>, lines 43 to 56. The two embedding tensors are fresh objects, held
  here at the addresses 0 and 1. With \<^verbatim>\<open>output_layer_index='all'\<close> the embeddings are
  tuples, which have no \<^verbatim>\<open>div_\<close>. The fourth argument of \<^verbatim>\<open>compute_RPF\<close> is
  \<^verbatim>\<open>candi_attention_mask\<close>, as line 53 has it.
\<close>

definition bert_score ::
  "tokenizer \<Rightarrow> bert_model \<Rightarrow> string list \<Rightarrow> string list \<Rightarrow> fl list option
    \<Rightarrow> layer_index \<Rightarrow> real \<Rightarrow> error + (vec \<times> vec \<times> vec)" where
  "bert_score bert_tokenizer model references candidates idf output_layer_index rescale_base =
     (let (refer_ids, refer_attention_mask, refer_weight_mask) =
            sents_to_tensor bert_tokenizer references;
          (candi_ids, candi_attention_mask, candi_weight_mask) =
            sents_to_tensor bert_tokenizer candidates
      in case bert_forwarding model refer_ids refer_attention_mask output_layer_index of
           Inl e \<Rightarrow> Inl e
         | Inr refer_embeds \<Rightarrow>
        (case bert_forwarding model candi_ids candi_attention_mask output_layer_index of
           Inl e \<Rightarrow> Inl e
         | Inr candi_embeds \<Rightarrow>
        (case refer_embeds of
           Layers ls \<Rightarrow> Inl AttributeError
         | Layer R \<Rightarrow>
        (case candi_embeds of
           Layers ls \<Rightarrow> Inl AttributeError
         | Layer C \<Rightarrow>
             fst (compute_RPF ((Map.empty(0 \<mapsto> R))(1 \<mapsto> C)) 0 1
                    (of_mask refer_weight_mask) (of_mask candi_attention_mask)
                    (Some refer_ids) (Some candi_ids) idf rescale_base)))))"

section \<open>The scorer\<close>

text \<open>
  \<^verbatim>\<open>load_idf\<close> reads one number per line. The file system is a map from paths to the
  lines of a file, and \<open>pyfloat\<close> is Python's \<^verbatim>\<open>float\<close> applied to a stripped line,
  \<open>None\<close> where it raises ValueError. \<^verbatim>\<open>torch.tensor\<close> stores the numbers in single
  precision.
\<close>

fun to_f32 :: "fl \<Rightarrow> fl" where
  "to_f32 (Fin x) = rnd x"
| "to_f32 a = a"

definition load_idf ::
  "(string \<Rightarrow> string list option) \<Rightarrow> (string \<Rightarrow> fl option) \<Rightarrow> string \<Rightarrow> error + fl list" where
  "load_idf fs pyfloat path =
     (case fs path of
        None \<Rightarrow> Inl OSError
      | Some lines \<Rightarrow>
          (case sequence (map (\<lambda>line. case pyfloat line of
                                           None \<Rightarrow> Inl ValueError
                                         | Some x \<Rightarrow> Inr x) lines) of
             Inl e \<Rightarrow> Inl e
           | Inr weight \<Rightarrow> Inr (map to_f32 weight)))"

text \<open>
  \<^verbatim>\<open>truncate_bert_layers\<close> keeps the transformer layers \<^verbatim>\<open>layer[:last_layer]\<close>: the
  first \<open>last_layer\<close> of them, or all but the last \<open>- last_layer\<close> for a negative
  number. The hidden states of the truncated encoder are the embedding output and the
  outputs of the layers kept.
\<close>

definition truncate_bert_layers :: "bert_model \<Rightarrow> int \<Rightarrow> bert_model" where
  "truncate_bert_layers encoder last_layer =
     (\<lambda>ids msk.
        let hidden_states = encoder ids msk;
            n_layers = int (length hidden_states) - 1;
            kept = (if 0 \<le> last_layer then min last_layer n_layers
                    else max 0 (n_layers + last_layer))
        in take (nat kept + 1) hidden_states)"

definition load_model ::
  "(string \<Rightarrow> error + (tokenizer \<times> bert_model)) \<Rightarrow> string \<Rightarrow> int
    \<Rightarrow> error + (tokenizer \<times> bert_model)" where
  "load_model from_pretrained model_name_or_path best_layer =
     (case from_pretrained model_name_or_path of
        Inl e \<Rightarrow> Inl e
      | Inr (tok, encoder) \<Rightarrow>
          Inr (tok, if 0 < best_layer then truncate_bert_layers encoder best_layer else encoder))"

record BERTScore =
  tokenizer_of :: tokenizer
  encoder_of :: bert_model
  rescale_base_of :: real
  idf_of :: "fl list option"

text \<open>
  \<^verbatim>\<open>BERTScore.__init__\<close>. On a size mismatch the argument of \<^verbatim>\<open>ValueError\<close> is an
  f-string that reads \<^verbatim>\<open>len(tokenizer)\<close>; no name \<^verbatim>\<open>tokenizer\<close> is bound in the
  method or in the module, so evaluating the message raises NameError before the
  ValueError is built.
\<close>

definition BERTScore_init ::
  "(string \<Rightarrow> error + (tokenizer \<times> bert_model)) \<Rightarrow> (string \<Rightarrow> string list option)
    \<Rightarrow> (string \<Rightarrow> fl option) \<Rightarrow> string \<Rightarrow> int \<Rightarrow> string option \<Rightarrow> real
    \<Rightarrow> error + BERTScore" where
  "BERTScore_init from_pretrained fs pyfloat model_name_or_path best_layer idf_path rescale_base =
     (case load_model from_pretrained model_name_or_path best_layer of
        Inl e \<Rightarrow> Inl e
      | Inr (tok, encoder) \<Rightarrow>
          (case idf_path of
             Some path \<Rightarrow>
               (case load_idf fs pyfloat path of
                  Inl e \<Rightarrow> Inl e
                | Inr weight \<Rightarrow>
                    if vocab_len tok = length weight
                    then Inr \<lparr>tokenizer_of = tok, encoder_of = encoder,
                              rescale_base_of = rescale_base, idf_of = Some weight\<rparr>
                    else Inl NameError)
           | None \<Rightarrow>
               Inr \<lparr>tokenizer_of = tok, encoder_of = encoder,
                     rescale_base_of = rescale_base, idf_of = None\<rparr>))"

text \<open>
  The loop of \<^verbatim>\<open>BERTScore.score\<close> over the steps still to run, with the list \<open>F\<close>
  collected so far. A slice \<^verbatim>\<open>xs[b: e]\<close> with \<open>0 \<le> b\<close> and \<open>0 \<le> e\<close> is
  \<open>drop b (take e xs)\<close>. The IDF table of a scorer is the weight of the
  \<^verbatim>\<open>torch.nn.Embedding\<close> that \<^verbatim>\<open>load_idf\<close> builds, a parameter that requires
  gradients; the scores computed from it require gradients too, and
  \<^verbatim>\<open>F_batch.numpy()\<close> raises RuntimeError on such a tensor.
\<close>

fun score_loop ::
  "BERTScore \<Rightarrow> string list \<Rightarrow> string list \<Rightarrow> nat \<Rightarrow> nat list \<Rightarrow> fl list \<Rightarrow> error + fl list" where
  "score_loop self references candidates batch_size [] F = Inr F"
| "score_loop self references candidates batch_size (step # steps) F =
     (let n_examples = length references;
          b = step * batch_size;
          e = min ((step + 1) * batch_size) n_examples;
          refer_batch = drop b (take e references);
          candi_batch = drop b (take e candidates)
      in case bert_score (tokenizer_of self) (encoder_of self) refer_batch candi_batch
                (idf_of self) (Ix (- 1)) (rescale_base_of self) of
           Inl err \<Rightarrow> Inl err
         | Inr (R, P, F_batch) \<Rightarrow>
             (case idf_of self of
                Some weight \<Rightarrow> Inl RuntimeError
              | None \<Rightarrow> score_loop self references candidates batch_size steps (F @ F_batch)))"

text \<open>
  \<^verbatim>\<open>BERTScore.score\<close>. \<^verbatim>\<open>math.ceil(n_examples / batch_size)\<close> raises
  ZeroDivisionError for a batch size of 0 and is not positive for a negative one, where
  the loop does not run. \<open>verbose\<close> only selects the progress bar.
\<close>

definition score :: "BERTScore \<Rightarrow> string list \<Rightarrow> string list \<Rightarrow> int \<Rightarrow> bool \<Rightarrow> error + fl list" where
  "score self references candidates batch_size verbose =
     (if batch_size = 0 then Inl ZeroDivisionError
      else
        (let n_examples = int (length references);
             n_batch = \<lceil>real_of_int n_examples / real_of_int batch_size\<rceil>
         in score_loop self references candidates (nat batch_size) [0..<nat n_batch] []))"

section \<open>A small tokenizer and encoder\<close>

text \<open>
  Concrete collaborators for evaluating the code: a tokenizer over the letters \<open>a\<close> and
  \<open>b\<close> with the ids pad = 0, begin = 1, end = 2, \<open>a\<close> = 3, \<open>b\<close> = 4, and a one-layer
  encoder with two-dimensional embeddings that depend on the token id alone, so that
  the vector of a real token depends neither on the padding nor on the other sentences
  of the batch.
\<close>

definition toy_id :: "char \<Rightarrow> int" where
  "toy_id ch = (if ch = CHR ''a'' then 3 else 4)"

definition toy_tok :: tokenizer where
  "toy_tok = \<lparr>encode = (\<lambda>s. 1 # map toy_id s @ [2]), cls_token_id = 1, sep_token_id = 2,
              pad_token_id = 0, vocab_len = 5\<rparr>"

definition toy_emb :: "int \<Rightarrow> vec" where
  "toy_emb i = (if i = 0 \<or> i = 4 then [Fin 0, Fin 1] else [Fin 1, Fin 0])"

definition toy_model :: bert_model where
  "toy_model ids msk = [map (map toy_emb) ids]"

definition toy_scorer :: BERTScore where
  "toy_scorer = \<lparr>tokenizer_of = toy_tok, encoder_of = toy_model, rescale_base_of = 0,
                 idf_of = None\<rparr>"

section \<open>Rows of embedding tensors\<close>

definition zero_row :: "vec \<Rightarrow> bool" where
  "zero_row v = list_all (\<lambda>x. x = Fin 0) v"

text \<open>
  The real numbers behind a normalized finite vector and behind a dot product of two of
  them: the sum of squares, the vector divided by its norm, the dot product and the
  cosine similarity.
\<close>

definition sumsq :: "real list \<Rightarrow> real" where
  "sumsq xs = sum_list (map (\<lambda>x. x * x) xs)"

definition unitize :: "real list \<Rightarrow> real list" where
  "unitize xs = map (\<lambda>x. x / sqrt (sumsq xs)) xs"

definition rdot :: "real list \<Rightarrow> real list \<Rightarrow> real" where
  "rdot xs ys = sum_list (map2 (*) xs ys)"

definition cos_sim :: "vec \<Rightarrow> vec \<Rightarrow> real" where
  "cos_sim u v = rdot (unitize (map fin_val u)) (unitize (map fin_val v))"

text \<open>
  A row whose normalization meets neither an overflow nor an underflow: its entries are
  finite and not all zero, every square is in range, the sum of the squares does not
  overflow, and every quotient by the norm is in range.
\<close>

definition norm_in_range :: "vec \<Rightarrow> bool" where
  "norm_in_range v =
     (list_all is_Fin v \<and> list_ex (\<lambda>x. x \<noteq> Fin 0) v
      \<and> list_all (\<lambda>x. in_range (fin_val x * fin_val x)) v
      \<and> sumsq (map fin_val v) < fovf
      \<and> list_all (\<lambda>x. in_range (fin_val x / sqrt (sumsq (map fin_val v)))) v)"

text \<open>
  Two matrices of rows such that every product within the dot product of a normalized
  row of the first and a normalized row of the second is in range.
\<close>

definition cos_in_range :: "mat \<Rightarrow> mat \<Rightarrow> bool" where
  "cos_in_range M N =
     list_all (\<lambda>u. list_all (\<lambda>v.
         list_all in_range (map2 (*) (unitize (map fin_val u)) (unitize (map fin_val v)))) N) M"

section \<open>Shapes\<close>

definition shape2 :: "nat \<Rightarrow> nat \<Rightarrow> 'a list list \<Rightarrow> bool" where
  "shape2 B K X = (length X = B \<and> list_all (\<lambda>row. length row = K) X)"

definition shape3 :: "nat \<Rightarrow> nat \<Rightarrow> nat \<Rightarrow> 'a list list list \<Rightarrow> bool" where
  "shape3 B n m T = (length T = B \<and> list_all (shape2 n m) T)"




text \<open>
  The length to which a batch is padded, and an embedding tensor that has the shape of a
  padded batch of ids, with vectors of dimension \<open>D\<close>.
\<close>

definition pad_len :: "tokenizer \<Rightarrow> string list \<Rightarrow> nat" where
  "pad_len tok sents = foldr max (map length (map (encode tok) sents)) 0"

definition embeds_shape :: "nat \<Rightarrow> int list list \<Rightarrow> tensor3 \<Rightarrow> bool" where
  "embeds_shape D ids T =
     (length T = length ids
      \<and> list_all2 (\<lambda>row M. length M = length row \<and> list_all (\<lambda>v. length v = D) M) ids T)"

section \<open>The reference definition of the scores\<close>












section \<open>The range of the number format\<close>

lemma fovf_big: "1000 < fovf"
  by (simp add: fovf_def)

lemma fmin_small: "fmin_normal < 1 / 1000"
  by (simp add: fmin_normal_def)

lemma rne_0: "rne 0 = 0"
  by (simp add: rne_def)

lemma rnd_0: "rnd 0 = Fin 0"
  by (simp add: rnd_def fovf_def fmin_normal_def subn_def rne_0)

lemma in_range_rnd: "in_range z \<Longrightarrow> rnd z = Fin z"
  using rnd_0 by (auto simp: in_range_def rnd_def)

lemma no_ovf: "\<bar>z\<bar> < fovf \<Longrightarrow> ovf z = Fin z"
  by (simp add: ovf_def)

lemma in_range_no_ovf: "in_range z \<Longrightarrow> \<bar>z\<bar> < fovf"
  using fovf_big by (auto simp: in_range_def)

lemma in_range_mid: "1 / 1000 \<le> \<bar>z\<bar> \<Longrightarrow> \<bar>z\<bar> \<le> 1000 \<Longrightarrow> in_range z"
  using fovf_big fmin_small by (simp add: in_range_def)

lemma in_range_0: "in_range 0"
  by (simp add: in_range_def)

lemma rnd_mid: "1 / 1000 \<le> \<bar>z\<bar> \<Longrightarrow> \<bar>z\<bar> \<le> 1000 \<Longrightarrow> rnd z = Fin z"
  by (rule in_range_rnd) (rule in_range_mid)

lemma ovf_mid: "\<bar>z\<bar> \<le> 1000 \<Longrightarrow> ovf z = Fin z"
  using fovf_big by (simp add: no_ovf)


text \<open>
  Two rows of finite entries that are not zero: the squares of the first underflow, the
  squares of the second overflow.
\<close>

lemma normalize_row_underflow: "normalize_row [Fin (1 / 10 ^ 30), Fin 0] = [PInf, NaN]"
  by (simp add: normalize_row_def norm_last_def rnd_def subn_def rne_def fovf_def
      fmin_normal_def ovf_def sgn_inf_def)

lemma normalize_row_overflow: "normalize_row [Fin (10 ^ 30), Fin (10 ^ 30)] = [Fin 0, Fin 0]"
  by (simp add: normalize_row_def norm_last_def rnd_def subn_def rne_def fovf_def
      fmin_normal_def ovf_def sgn_inf_def)

section \<open>Evaluating the code on the small collaborators\<close>

lemmas eval_defs = bert_score_def sents_to_tensor_def batch_encode_plus_def where_eq_def
  bert_forwarding_def py_index_def compute_RPF_def compute_pairwise_cosine_def normalize_def
  div_norm_def normalize_row_def norm_last_def bmm_permute_def same_dim_def dot_def
  rpf_of_cosine_def max_dim2_def max_dim1_def idf_weights_def apply_idf_def idf_lookup_def
  rescaling_mat_def rescaling_def weighted_mean_def bc2_mat_def bc2_def f_measure_def
  of_mask_def toy_tok_def toy_model_def toy_emb_def toy_id_def fl_sub_def sgn_inf_def
  rnd_0 rnd_mid ovf_mid

lemma score_div:
  "batch_size \<noteq> 0 \<Longrightarrow>
   score self references candidates batch_size verbose =
   score_loop self references candidates (nat batch_size)
     [0..<nat (- (- int (length references) div batch_size))] []"
  by (simp add: score_def ceiling_divide_eq_div)

lemma upt_0_1: "[0..<nat 1] = [0]"
  by simp

lemma upt_0_2: "[0..<2] = [0, 1]"
  by (simp add: upt_rec)

lemma toy_a_b:
  "bert_score toy_tok toy_model [''a''] [''b''] None (Ix (- 1)) 0
     = Inr ([Fin 1], [Fin (2 / 3)], [Fin (4 / 5)])"
  by (simp add: eval_defs)

lemma toy_b_a:
  "bert_score toy_tok toy_model [''b''] [''a''] None (Ix (- 1)) 0
     = Inr ([Fin 0], [Fin 1], [Fin 0])"
  by (simp add: eval_defs)

lemma toy_b_aa:
  "bert_score toy_tok toy_model [''b''] [''aa''] None (Ix (- 1)) 0
     = Inr ([Fin 0], [Fin 1], [Fin 0])"
  by (simp add: eval_defs)

lemma toy_bb_a_aa:
  "bert_score toy_tok toy_model [''b'', ''b''] [''a'', ''aa''] None (Ix (- 1)) 0
     = Inr ([Fin 1, Fin 0], [Fin 1, Fin 1], [Fin 1, Fin 0])"
  by (simp add: eval_defs)

section \<open>The weight mask of the candidate side\<close>

text \<open>
  C1. Without an IDF table, Precision is specified as the average of PrecisionMax over
  the candidate ContentMask. \<^verbatim>\<open>bert_score\<close> computes that mask
  (\<^verbatim>\<open>candi_weight_mask\<close>, line 44) and then hands \<^verbatim>\<open>candi_attention_mask\<close> to
  \<^verbatim>\<open>compute_RPF\<close> (line 53). For the reference \<open>a\<close> and the candidate \<open>b\<close> the
  candidate ids are \<open>[1, 4, 2]\<close>, the attention mask is \<open>[1, 1, 1]\<close>, the ContentMask is
  \<open>[0, 1, 0]\<close> and PrecisionMax is \<open>[1, 0, 1]\<close>: the code returns the Precision
  \<open>2/3\<close>, the average over the attention mask, where the average over the ContentMask
  is \<open>0\<close>.
\<close>

theorem bert_score_precision_uses_attention_mask:
  "bert_score toy_tok toy_model [''a''] [''b''] None (Ix (- 1)) 0
     = Inr ([Fin 1], [Fin (2 / 3)], [Fin (4 / 5)])
   \<and> sents_to_tensor toy_tok [''b''] = ([[1, 4, 2]], [[1, 1, 1]], [[0, 1, 0]])
   \<and> fst (compute_pairwise_cosine
        (Map.empty(0 \<mapsto> [map toy_emb [1, 3, 2]], 1 \<mapsto> [map toy_emb [1, 4, 2]])) 0 1)
     = Inr [[[Fin 1, Fin 0, Fin 1], [Fin 1, Fin 0, Fin 1], [Fin 1, Fin 0, Fin 1]]]
   \<and> max_dim1 [[[Fin 1, Fin 0, Fin 1], [Fin 1, Fin 0, Fin 1], [Fin 1, Fin 0, Fin 1]]]
     = Inr [[Fin 1, Fin 0, Fin 1]]
   \<and> weighted_mean [[Fin 1, Fin 0, Fin 1]] (of_mask [[1, 1, 1]]) = Inr [Fin (2 / 3)]
   \<and> weighted_mean [[Fin 1, Fin 0, Fin 1]] (of_mask [[0, 1, 0]]) = Inr [Fin 0]"
  by (simp add: eval_defs)

section \<open>Batches\<close>

text \<open>
  C3. Batch-size invariance fails on the code. The maxima of lines 154 and 155 run over
  every position of the padded batch, padding included, and only the averaged index is
  filtered by a mask. The pair \<open>(b, a)\<close> scored alone has F1 \<open>0\<close>; scored in one batch
  with the pair \<open>(b, aa)\<close> the candidate \<open>a\<close> is padded by one position, the vector at
  that position is the best match of the reference token, and F1 is \<open>1\<close>.
\<close>

theorem score_depends_on_batch_size:
  "score toy_scorer [''b'', ''b''] [''a'', ''aa''] 2 False = Inr [Fin 1, Fin 0]
   \<and> score toy_scorer [''b'', ''b''] [''a'', ''aa''] 1 False = Inr [Fin 0, Fin 0]"
  by (simp add: score_div upt_0_1 upt_0_2 toy_scorer_def toy_bb_a_aa toy_b_a toy_b_aa)

section \<open>Swapping references and candidates\<close>

text \<open>
  C5. Swapping the two lists does not swap Recall and Precision: the reference side is
  averaged over the ContentMask and the candidate side over the attention mask
  (line 53). For \<open>(a, b)\<close> the code returns \<open>R = 1\<close>, \<open>P = 2/3\<close>, \<open>F1 = 4/5\<close>; for
  \<open>(b, a)\<close> it returns \<open>R = 0\<close>, \<open>P = 1\<close>, \<open>F1 = 0\<close>.
\<close>

theorem bert_score_swap_not_symmetric:
  "bert_score toy_tok toy_model [''a''] [''b''] None (Ix (- 1)) 0
     = Inr ([Fin 1], [Fin (2 / 3)], [Fin (4 / 5)])
   \<and> bert_score toy_tok toy_model [''b''] [''a''] None (Ix (- 1)) 0
     = Inr ([Fin 0], [Fin 1], [Fin 0])"
  by (simp add: toy_a_b toy_b_a)

section \<open>Construction of the scorer\<close>

text \<open>
  C8. When the IDF file has been read and its number of lines differs from the size of
  the vocabulary, construction fails, but with NameError, not with the ValueError the
  code means to raise: the message of the ValueError reads the unbound name
  \<^verbatim>\<open>tokenizer\<close>.
\<close>

theorem BERTScore_init_size_mismatch:
  "load_model from_pretrained model_name_or_path best_layer = Inr (tok, encoder) \<Longrightarrow>
   load_idf fs pyfloat path = Inr weight \<Longrightarrow>
   vocab_len tok \<noteq> length weight \<Longrightarrow>
   BERTScore_init from_pretrained fs pyfloat model_name_or_path best_layer (Some path)
     rescale_base = Inl NameError"
  by (simp add: BERTScore_init_def)

theorem BERTScore_init_size_mismatch_witness:
  "BERTScore_init (\<lambda>p. Inr (toy_tok, toy_model)) (\<lambda>p. Some [''1.0'', ''2.0''])
     (\<lambda>l. Some (Fin 1)) ''bert'' (- 1) (Some ''idf.txt'') 0 = Inl NameError"
  by (rule BERTScore_init_size_mismatch [where tok = toy_tok and encoder = toy_model
        and weight = "[Fin 1, Fin 1]"])
     (simp_all add: load_model_def load_idf_def toy_tok_def rnd_mid)

lemma BERTScore_init_size_match:
  "load_model from_pretrained model_name_or_path best_layer = Inr (tok, encoder) \<Longrightarrow>
   load_idf fs pyfloat path = Inr weight \<Longrightarrow>
   vocab_len tok = length weight \<Longrightarrow>
   BERTScore_init from_pretrained fs pyfloat model_name_or_path best_layer (Some path)
     rescale_base
   = Inr \<lparr>tokenizer_of = tok, encoder_of = encoder, rescale_base_of = rescale_base,
           idf_of = Some weight\<rparr>"
  by (simp add: BERTScore_init_def)

section \<open>Normalization in place\<close>

lemma compute_pairwise_cosine_heap:
  assumes "refer_embeds \<noteq> candi_embeds" "h refer_embeds = Some R" "h candi_embeds = Some C"
  shows "compute_pairwise_cosine h refer_embeds candi_embeds
    = (bmm_permute (div_norm R) (div_norm C),
       h(refer_embeds \<mapsto> div_norm R, candi_embeds \<mapsto> div_norm C))"
  using assms by (simp add: compute_pairwise_cosine_def normalize_def Let_def)

lemma compute_pairwise_cosine_alias:
  assumes "h a = Some R"
  shows "compute_pairwise_cosine h a a
    = (bmm_permute (div_norm (div_norm R)) (div_norm (div_norm R)),
       h(a \<mapsto> div_norm (div_norm R)))"
  using assms by (simp add: compute_pairwise_cosine_def normalize_def Let_def)

lemma div_norm_nth:
  "b < length t \<Longrightarrow> i < length (t ! b) \<Longrightarrow> div_norm t ! b ! i = normalize_row (t ! b ! i)"
  by (simp add: div_norm_def)



section \<open>Lists of unequal lengths\<close>

lemma score_loop_take:
  "score_loop self references candidates bs steps F
   = score_loop self references (take (length references) candidates) bs steps F"
proof (induction steps arbitrary: F)
  case Nil
  then show ?case by simp
next
  case (Cons step steps)
  have "take (min ((step + 1) * bs) (length references)) (take (length references) candidates)
        = take (min ((step + 1) * bs) (length references)) candidates"
    by (simp add: min.absorb1)
  then show ?case
    using Cons by (simp add: Let_def split: sum.splits prod.splits option.splits)
qed

text \<open>
  C9, as the code has it. \<^verbatim>\<open>score\<close> compares no lengths. The number of steps comes
  from the references alone, and the candidates are read only through the slices
  \<^verbatim>\<open>candidates[b: e]\<close> with \<open>e \<le> len(references)\<close>: candidates beyond the number of
  references are never read, and the call returns what it returns (the scores, or the
  exception) on the candidates cut to that number.
\<close>

theorem score_ignores_surplus_candidates:
  "score self references candidates batch_size verbose
     = score self references (take (length references) candidates) batch_size verbose"
  using score_loop_take [of self references candidates]
  by (simp add: score_def Let_def)

text \<open>One reference and two candidates: no error is raised, and one score is returned.\<close>

theorem score_accepts_surplus_candidates:
  "score toy_scorer [''a''] [''b'', ''b''] 128 True = Inr [Fin (4 / 5)]"
  by (simp add: score_div upt_0_1 toy_scorer_def toy_a_b)

text \<open>
  A scorer with an IDF table fails at \<^verbatim>\<open>F_batch.numpy()\<close> once its first batch is
  scored.
\<close>

lemma score_with_idf_fails:
  "score (toy_scorer\<lparr>idf_of := Some (replicate 5 (Fin 1))\<rparr>) [''a''] [''b''] 128 True
     = Inl RuntimeError"
  by (simp add: score_div upt_0_1 toy_scorer_def eval_defs)

section \<open>Normalized rows\<close>

lemma all_Fin_map: "list_all is_Fin v \<Longrightarrow> v = map Fin (map fin_val v)"
proof (induction v)
  case Nil
  then show ?case by simp
next
  case (Cons a v)
  then show ?case by (cases a) simp_all
qed

lemma fl_sum_Fin:
  "sum_list (map abs ys) < fovf \<Longrightarrow> fl_sum (map Fin ys) = Fin (sum_list ys)"
proof (induction ys)
  case Nil
  then show ?case by simp
next
  case (Cons y ys)
  have nn: "0 \<le> sum_list (map abs ys)" by (rule sum_list_nonneg) auto
  have le: "\<bar>sum_list ys\<bar> \<le> sum_list (map abs ys)" by (rule sum_list_abs)
  from Cons.prems nn have "sum_list (map abs ys) < fovf" by simp
  then have ih: "fl_sum (map Fin ys) = Fin (sum_list ys)" by (rule Cons.IH)
  have "\<bar>y + sum_list ys\<bar> \<le> \<bar>y\<bar> + sum_list (map abs ys)" using le by linarith
  with Cons.prems have "\<bar>y + sum_list ys\<bar> < fovf" by simp
  with ih show ?case by (simp add: no_ovf)
qed

lemma squares_Fin:
  "list_all (\<lambda>x. in_range (x * x)) xs
   \<Longrightarrow> map (\<lambda>x. fl_mul x x) (map Fin xs) = map Fin (map (\<lambda>x. x * x) xs)"
  by (induction xs) (simp_all add: in_range_rnd)

lemma sumsq_nonneg: "0 \<le> sumsq xs"
  unfolding sumsq_def by (rule sum_list_nonneg) auto

lemma sumsq_abs: "sum_list (map abs (map (\<lambda>x. x * x) xs)) = sumsq xs"
  for xs :: "real list"
  by (induction xs) (simp_all add: sumsq_def abs_mult)

lemma norm_last_Fin:
  assumes "list_all (\<lambda>x. in_range (x * x)) xs" "sumsq xs < fovf"
  shows "norm_last (map Fin xs) = Fin (sqrt (sumsq xs))"
proof -
  have s: "fl_sum (map Fin (map (\<lambda>x. x * x) xs)) = Fin (sumsq xs)"
    unfolding sumsq_def using assms(2) by (intro fl_sum_Fin) (simp only: sumsq_abs)
  show ?thesis
    unfolding norm_last_def squares_Fin [OF assms(1)] s
    using sumsq_nonneg [of xs] by simp
qed

lemma sumsq_pos:
  assumes "x \<in> set xs" "x \<noteq> 0"
  shows "0 < sumsq xs"
  using assms
proof (induction xs)
  case Nil
  then show ?case by simp
next
  case (Cons a xs)
  have r: "0 \<le> sumsq xs" by (rule sumsq_nonneg)
  have a: "0 \<le> a * a" by simp
  show ?case
  proof (cases "a = 0")
    case True
    with Cons show ?thesis by (auto simp: sumsq_def)
  next
    case False
    then have "0 < a * a" by (auto simp: zero_less_mult_iff linorder_neq_iff)
    with r show ?thesis by (simp add: sumsq_def)
  qed
qed

lemma quotients_Fin:
  assumes "n \<noteq> 0" "list_all (\<lambda>x. in_range (x / n)) xs"
  shows "map (\<lambda>x. fl_div x (Fin n)) (map Fin xs) = map Fin (map (\<lambda>x. x / n) xs)"
  using assms by (induction xs) (simp_all add: in_range_rnd)

lemma norm_in_range_facts:
  assumes "norm_in_range v"
  shows "v = map Fin (map fin_val v)"
    and "list_all (\<lambda>x. in_range (x * x)) (map fin_val v)"
    and "sumsq (map fin_val v) < fovf"
    and "0 < sumsq (map fin_val v)"
    and "list_all (\<lambda>x. in_range (x / sqrt (sumsq (map fin_val v)))) (map fin_val v)"
proof -
  from assms have f: "list_all is_Fin v" by (simp add: norm_in_range_def)
  then show "v = map Fin (map fin_val v)" by (rule all_Fin_map)
  from assms show "list_all (\<lambda>x. in_range (x * x)) (map fin_val v)"
    by (simp add: norm_in_range_def list_all_iff)
  from assms show "sumsq (map fin_val v) < fovf" by (simp add: norm_in_range_def)
  from assms show "list_all (\<lambda>x. in_range (x / sqrt (sumsq (map fin_val v)))) (map fin_val v)"
    by (simp add: norm_in_range_def list_all_iff)
  from assms obtain x where x: "x \<in> set v" "x \<noteq> Fin 0"
    by (auto simp: norm_in_range_def list_ex_iff)
  from f x have fx: "is_Fin x" by (auto simp: list_all_iff)
  have "fin_val x \<noteq> 0" using fx x(2) by (cases x) simp_all
  moreover from x have "fin_val x \<in> set (map fin_val v)" by simp
  ultimately show "0 < sumsq (map fin_val v)" by (rule sumsq_pos [rotated])
qed

lemma normalize_row_unitize:
  assumes "norm_in_range v"
  shows "normalize_row v = map Fin (unitize (map fin_val v))"
proof -
  let ?xs = "map fin_val v"
  note f = norm_in_range_facts [OF assms]
  have n: "norm_last (map Fin ?xs) = Fin (sqrt (sumsq ?xs))"
    using f(2,3) by (rule norm_last_Fin)
  have nz: "sqrt (sumsq ?xs) \<noteq> 0" using f(4) by simp
  have "normalize_row (map Fin ?xs) = map Fin (map (\<lambda>x. x / sqrt (sumsq ?xs)) ?xs)"
    unfolding normalize_row_def n using nz f(5) by (rule quotients_Fin)
  then have "normalize_row (map Fin ?xs) = map Fin (unitize ?xs)"
    by (simp only: unitize_def)
  with f(1) show ?thesis by simp
qed

lemma sum_squares_scaled:
  "sum_list (map (\<lambda>x. x * x) (map (\<lambda>x. x / c) xs)) = sum_list (map (\<lambda>x. x * x) xs) / (c * c)"
  for c :: real
  by (induction xs) (simp_all add: add_divide_distrib)

lemma sumsq_unitize:
  assumes "0 < sumsq xs"
  shows "sumsq (unitize xs) = 1"
proof -
  have "sumsq (unitize xs) = sumsq xs / (sqrt (sumsq xs) * sqrt (sumsq xs))"
    unfolding sumsq_def unitize_def by (rule sum_squares_scaled)
  also have "sqrt (sumsq xs) * sqrt (sumsq xs) = sumsq xs" using assms by simp
  finally show ?thesis using assms by simp
qed

lemma zero_row_replicate: "zero_row v \<Longrightarrow> v = replicate (length v) (Fin 0)"
  by (induction v) (simp_all add: zero_row_def)

lemma fl_sum_zero: "fl_sum (replicate n (Fin 0)) = Fin 0"
  by (induction n) (simp_all add: no_ovf fovf_def)

lemma norm_last_zero: "norm_last (replicate n (Fin 0)) = Fin 0"
  by (simp add: norm_last_def rnd_0 fl_sum_zero)

lemma zero_row_nan:
  assumes "zero_row v"
  shows "normalize_row v = replicate (length v) NaN"
proof -
  from assms have v: "v = replicate (length v) (Fin 0)" by (rule zero_row_replicate)
  have "normalize_row (replicate n (Fin 0)) = replicate n NaN" for n
    by (simp add: normalize_row_def norm_last_zero sgn_inf_def map_replicate)
  with v show ?thesis by metis
qed

text \<open>
  C7, as the code has it. After \<^verbatim>\<open>compute_pairwise_cosine\<close> each of the two tensors is
  replaced by its normalization. A row of finite entries, not all zero, whose squares,
  their sum and the quotients by the norm stay in the range of the number format becomes
  the row divided by its norm, of unit L2 norm. A row whose entries are all zero is
  divided by its norm 0, and every entry becomes NaN: the code has no floor on the norm.
\<close>

theorem normalized_rows_unit_or_nan:
  assumes "refer_embeds \<noteq> candi_embeds" "h refer_embeds = Some R" "h candi_embeds = Some C"
    and "(a, t) = (refer_embeds, R) \<or> (a, t) = (candi_embeds, C)"
    and "b < length t" "i < length (t ! b)"
  shows "snd (compute_pairwise_cosine h refer_embeds candi_embeds) a = Some (div_norm t)
     \<and> (norm_in_range (t ! b ! i)
          \<longrightarrow> div_norm t ! b ! i = map Fin (unitize (map fin_val (t ! b ! i)))
            \<and> sumsq (unitize (map fin_val (t ! b ! i))) = 1)
     \<and> (zero_row (t ! b ! i) \<longrightarrow> div_norm t ! b ! i = replicate (length (t ! b ! i)) NaN)"
  using assms
  by (auto simp: compute_pairwise_cosine_heap div_norm_nth normalize_row_unitize zero_row_nan
      sumsq_unitize norm_in_range_facts(4))

theorem normalized_rows_unit_or_nan_witness:
  "norm_in_range [Fin 0, Fin 2] \<and> zero_row [Fin 0, Fin 0]
   \<and> snd (compute_pairwise_cosine
        (Map.empty(0 \<mapsto> [[[Fin 0, Fin 2]]], 1 \<mapsto> [[[Fin 0, Fin 0]]])) 0 1) 0
       = Some (div_norm [[[Fin 0, Fin 2]]])
   \<and> div_norm [[[Fin 0, Fin 2]]] ! 0 ! 0 = [Fin 0, Fin 1]
   \<and> sumsq [0, 1] = 1
   \<and> snd (compute_pairwise_cosine
        (Map.empty(0 \<mapsto> [[[Fin 0, Fin 2]]], 1 \<mapsto> [[[Fin 0, Fin 0]]])) 0 1) 1
       = Some (div_norm [[[Fin 0, Fin 0]]])
   \<and> div_norm [[[Fin 0, Fin 0]]] ! 0 ! 0 = [NaN, NaN]"
proof -
  have r: "norm_in_range [Fin 0, Fin 2]"
    by (simp add: norm_in_range_def sumsq_def in_range_0 in_range_mid fovf_def)
  have z: "zero_row [Fin 0, Fin 0]" by (simp add: zero_row_def)
  have u: "unitize (map fin_val [Fin 0, Fin 2]) = [0, 1]" by (simp add: unitize_def sumsq_def)
  show ?thesis
    using r z u
      normalized_rows_unit_or_nan
        [of 0 1 "Map.empty(0 \<mapsto> [[[Fin 0, Fin 2]]], 1 \<mapsto> [[[Fin 0, Fin 0]]])"
          "[[[Fin 0, Fin 2]]]" "[[[Fin 0, Fin 0]]]" 0 "[[[Fin 0, Fin 2]]]" 0 0]
      normalized_rows_unit_or_nan
        [of 0 1 "Map.empty(0 \<mapsto> [[[Fin 0, Fin 2]]], 1 \<mapsto> [[[Fin 0, Fin 0]]])"
          "[[[Fin 0, Fin 2]]]" "[[[Fin 0, Fin 0]]]" 1 "[[[Fin 0, Fin 0]]]" 0 0]
    by simp
qed

text \<open>
  An all-zero row becomes NaN. A row of finite entries whose squares underflow has the
  computed norm 0 as well, and does not become a unit row either.
\<close>

theorem zero_row_becomes_nan:
  "snd (compute_pairwise_cosine
          (Map.empty(0 \<mapsto> [[[Fin 0, Fin 0]]], 1 \<mapsto> [[[Fin 1, Fin 0]]])) 0 1) 0
     = Some [[[NaN, NaN]]]
   \<and> snd (compute_pairwise_cosine
          (Map.empty(0 \<mapsto> [[[Fin (1 / 10 ^ 30), Fin 0]]], 1 \<mapsto> [[[Fin 1, Fin 0]]])) 0 1) 0
     = Some [[[PInf, NaN]]]"
proof -
  have "normalize_row [Fin 0, Fin 0] = [NaN, NaN]"
    by (simp add: normalize_row_def norm_last_def rnd_0 ovf_mid sgn_inf_def)
  then show ?thesis
    using normalize_row_underflow
    by (simp add: compute_pairwise_cosine_def normalize_def div_norm_def)
qed

section \<open>Refinement of the reference definition\<close>


















lemma shape3_nth:
  assumes "shape3 B n m T" "b < B"
  shows "length (T ! b) = n" and "\<And>i. i < n \<Longrightarrow> length (T ! b ! i) = m"
  using assms by (auto simp: shape3_def shape2_def list_all_length)

lemma shape2_nth: "shape2 B K X \<Longrightarrow> b < B \<Longrightarrow> length (X ! b) = K"
  by (simp add: shape2_def list_all_length)





























section \<open>A constant IDF table\<close>











end
